theory Spec2Isabelle
  imports Complex_Main
begin

unbundle bit_operations_syntax

section \<open>PyAppAuto: the \<open>Instance\<close> class of \<open>pyappauto/__init__.py\<close>\<close>

text \<open>
  \<open>Instance\<close> wraps one window of one external process.  Its methods check that a
  window handle is held and then call into pywin32 (\<open>win32gui\<close>, \<open>win32api\<close>,
  \<open>win32ui\<close>), pygetwindow, OpenCV, \<open>subprocess\<close>, \<open>os\<close> and \<open>time\<close>.

  The embedding is sequential: a method takes the instance (and, where it reads an answer
  of the operating system or of a library, the record \<open>env\<close> of those answers) and
  returns the value or the exception, the instance afterwards, and the list of external
  calls it made, in program order.  What the calls answer is a parameter.  Two of them
  can raise according to that parameter: \<open>time.sleep\<close> on a duration it refuses, and
  \<open>cv2.matchTemplate\<close> on an image that did not load or does not fit; the call that
  raises is the last of the list.  The pywin32 calls are taken to return.  The polling
  thread is only visible as the event \<open>ThreadStart\<close>.
\<close>

subsection \<open>Values\<close>

text \<open>A Python \<open>str\<close> whose characters are inspected (\<open>len\<close>, \<open>ord\<close>, \<open>lower\<close>) is
  the list of its code points; paths and window titles are only handed on.\<close>

type_synonym pystr = "nat list"

text \<open>A Python number (\<open>float\<close> or \<open>int\<close>), as far as \<open><\<close> is concerned: comparison is
  exact, and every comparison with NaN is false.\<close>

datatype pyfloat = Finite real | PosInf | NegInf | NaN

fun float_lt :: "pyfloat \<Rightarrow> pyfloat \<Rightarrow> bool" where
  "float_lt (Finite a) (Finite b) = (a < b)"
| "float_lt (Finite a) PosInf = True"
| "float_lt NegInf (Finite b) = True"
| "float_lt NegInf PosInf = True"
| "float_lt _ _ = False"

text \<open>The exceptions of \<open>pyappauto.utils.errors\<close>, the \<open>ValueError\<close> and
  \<open>OverflowError\<close> of \<open>time.sleep\<close>, and \<open>cv2.error\<close>.\<close>

datatype error =
    ProcessAlreadyOpened
  | InvalidPath
  | NoHwnd
  | NoOpenedProcess
  | InvalidScreen
  | ValueError
  | OverflowError
  | Cv2Error

text \<open>The argument of \<open>press_key\<close>: \<open>int | str\<close>.\<close>

datatype key = IntKey int | StrKey pystr

text \<open>The pieces of a formatted debug message, in order.\<close>

datatype part = Txt string | Num int | KeyP key | StrP pystr

text \<open>A window rectangle \<open>(left, top, right, bottom)\<close>, indexed 0 to 3 in the source.\<close>

type_synonym rect = "int \<times> int \<times> int \<times> int"

subsection \<open>Constants of \<open>win32con\<close> and \<open>cv2\<close>\<close>

definition WM_CLOSE :: int where "WM_CLOSE = 16"
definition WM_KEYDOWN :: int where "WM_KEYDOWN = 256"
definition WM_KEYUP :: int where "WM_KEYUP = 257"
definition WM_CHAR :: int where "WM_CHAR = 258"
definition WM_LBUTTONDOWN :: int where "WM_LBUTTONDOWN = 513"
definition WM_LBUTTONUP :: int where "WM_LBUTTONUP = 514"
definition WM_RBUTTONDOWN :: int where "WM_RBUTTONDOWN = 516"
definition WM_RBUTTONUP :: int where "WM_RBUTTONUP = 517"
definition MK_LBUTTON :: int where "MK_LBUTTON = 1"
definition MK_RBUTTON :: int where "MK_RBUTTON = 2"
definition VK_RETURN :: int where "VK_RETURN = 13"
definition VK_TAB :: int where "VK_TAB = 9"
definition SW_NORMAL :: int where "SW_NORMAL = 1"
definition SW_MAXIMIZE :: int where "SW_MAXIMIZE = 3"
definition HWND_TOP :: int where "HWND_TOP = 0"
definition SWP_NOSIZE :: int where "SWP_NOSIZE = 1"
definition SWP_NOMOVE :: int where "SWP_NOMOVE = 2"
definition SWP_NOZORDER :: int where "SWP_NOZORDER = 4"
definition SWP_NOACTIVATE :: int where "SWP_NOACTIVATE = 16"
definition SRCCOPY :: int where "SRCCOPY = 13369376"
definition COLOR_BGR2RGB :: int where "COLOR_BGR2RGB = 4"
definition TM_CCOEFF_NORMED :: int where "TM_CCOEFF_NORMED = 5"

subsection \<open>External calls\<close>

text \<open>One constructor for each external call the class makes, with the arguments that
  the class computes.  Objects that are only passed from one call to the next (device
  contexts, the bitmap, image arrays) are left out.\<close>

datatype call =
    Print string "part list"
  | ThreadStart
  | PathExists string
  | Popen string
  | Terminate nat
  | Sleep pyfloat
  | GetWindowsWithTitle string
  | IsWindow "int option"
  | PostMessage int int int int
  | SendMessage int int int int
  | EnumDisplayMonitors
  | SetWindowPos int int int int int int int
  | ShowWindow int int
  | GetWindowRect int
  | Imread string
  | GetWindowDC int
  | CreateDCFromHandle
  | CreateCompatibleDC
  | CreateBitmap
  | CreateCompatibleBitmap int int
  | SelectObject
  | BitBlt int int int
  | GetInfo
  | GetBitmapBits
  | Frombuffer
  | Reshape int int
  | CvtColor int
  | MatchTemplate int
  | MinMaxLoc

text \<open>What the operating system and the libraries answer.\<close>

record env =
  path_exists :: "string \<Rightarrow> bool"
  popen :: "string \<Rightarrow> nat"
  windows_with_title :: "string \<Rightarrow> int list"
  display_monitors :: "rect list"
  window_rect :: "int \<Rightarrow> rect"
  makelong :: "int \<Rightarrow> int \<Rightarrow> int"
  out_of_range :: "real \<Rightarrow> bool"
  imread_shape :: "string \<Rightarrow> (int \<times> int) option"
  bitmap_info :: "int \<Rightarrow> int \<times> int"
  best_match :: "int \<Rightarrow> string \<Rightarrow> (pyfloat \<times> int \<times> int) option"

text \<open>
  \<^item> \<open>path_exists\<close>: \<open>os.path.exists\<close>;
  \<^item> \<open>popen\<close>: the process object that \<open>subprocess.Popen\<close> returns;
  \<^item> \<open>windows_with_title\<close>: the \<open>_hWnd\<close> of each window that
    \<open>gw.getWindowsWithTitle\<close> returns (a raise in there is the empty list: both end in
    the same \<open>except\<close> branch);
  \<^item> \<open>display_monitors\<close>: component 2, the rectangle, of each entry of
    \<open>win32api.EnumDisplayMonitors\<close>;
  \<^item> \<open>window_rect\<close>: \<open>win32gui.GetWindowRect\<close>;
  \<^item> \<open>makelong\<close>: \<open>win32api.MAKELONG\<close>, a pure packing of two numbers;
  \<^item> \<open>out_of_range\<close>: the durations that \<open>time.sleep\<close> cannot convert to its clock
    and refuses with \<open>OverflowError\<close>; how large that is depends on the platform;
  \<^item> \<open>imread_shape\<close>: \<open>shape[0]\<close> (rows) and \<open>shape[1]\<close> (columns) of the image
    that \<open>cv2.imread\<close> loads, \<open>None\<close> when it returns \<open>None\<close> (the file is not an image
    it can read);
  \<^item> \<open>bitmap_info\<close>: \<open>bmHeight\<close> and \<open>bmWidth\<close> of the captured bitmap;
  \<^item> \<open>best_match\<close>: \<open>max_val\<close> and \<open>max_loc\<close> of \<open>cv2.minMaxLoc\<close> on the result of
    \<open>cv2.matchTemplate\<close> for the window's screenshot and the image at the path,
    \<open>None\<close> when \<open>cv2.matchTemplate\<close> raises (the image is larger than the
    screenshot, say).
\<close>

subsection \<open>The instance\<close>

record Instance =
  hwnd :: "int option"
  process :: "nat option"
  kill :: bool
  debug :: bool

type_synonym 'a outcome = "(error + 'a) \<times> Instance \<times> call list"

text \<open>Python's truth value of \<open>self._hwnd\<close>: \<open>None\<close> and \<open>0\<close> are false.\<close>

definition truthy :: "int option \<Rightarrow> bool" where
  "truthy h = (case h of None \<Rightarrow> False | Some n \<Rightarrow> n \<noteq> 0)"

text \<open>\<open>__debug\<close>: prints only when \<open>_debug\<close> is set.\<close>

definition dbg :: "Instance \<Rightarrow> string \<Rightarrow> part list \<Rightarrow> call list" where
  "dbg i title content = (if \<not> debug i then [] else [Print title content])"

text \<open>\<open>__init__\<close>.\<close>

definition init :: "int option \<Rightarrow> bool \<Rightarrow> Instance \<times> call list" where
  "init h d =
     (\<lparr>hwnd = h, process = None, kill = False, debug = d\<rparr>,
      if truthy h then [ThreadStart] else [])"

text \<open>The guard \<open>if not self._hwnd: raise utils.errors.NoOpenedProcess()\<close> that opens
  every method but \<open>open\<close>; the rest of the method gets the handle.\<close>

definition with_hwnd :: "Instance \<Rightarrow> (int \<Rightarrow> 'a outcome) \<Rightarrow> 'a outcome" where
  "with_hwnd i body =
     (case hwnd i of
        None \<Rightarrow> (Inl NoOpenedProcess, i, [])
      | Some h \<Rightarrow> if h = 0 then (Inl NoOpenedProcess, i, []) else body h)"

text \<open>One statement after another: an exception ends the sequence, the calls made so
  far stay made.\<close>

definition then_do :: "'a outcome \<Rightarrow> ('a \<Rightarrow> Instance \<Rightarrow> 'b outcome) \<Rightarrow> 'b outcome" where
  "then_do m f =
     (case m of
        (Inl err, i, t) \<Rightarrow> (Inl err, i, t)
      | (Inr v, i, t) \<Rightarrow> (case f v i of (r, i', t') \<Rightarrow> (r, i', t @ t')))"

text \<open>\<open>time.sleep\<close>: the exception it raises, if any.  The duration is converted first
  (\<open>OverflowError\<close> when it is out of range, \<open>ValueError\<close> for NaN), then tested for its
  sign (\<open>ValueError\<close> when negative).\<close>

definition time_sleep :: "env \<Rightarrow> pyfloat \<Rightarrow> error option" where
  "time_sleep e d =
     (case d of
        Finite r \<Rightarrow>
          if out_of_range e r then Some OverflowError
          else if r < 0 then Some ValueError
          else None
      | PosInf \<Rightarrow> Some OverflowError
      | NegInf \<Rightarrow> Some OverflowError
      | NaN \<Rightarrow> Some ValueError)"

subsection \<open>Window lifecycle\<close>

definition "open" :: "env \<Rightarrow> Instance \<Rightarrow> string \<Rightarrow> string \<Rightarrow> pyfloat \<Rightarrow> unit outcome" where
  "open e i exe_path app_title delay_seconds =
     (if truthy (hwnd i) then (Inl ProcessAlreadyOpened, i, [])
      else if \<not> path_exists e exe_path then (Inl InvalidPath, i, [PathExists exe_path])
      else
        let t1 = [PathExists exe_path] @ dbg i ''Processing'' [Txt ''Creating an application.'']
                   @ [Popen exe_path];
            i1 = i\<lparr>process := Some (popen e exe_path)\<rparr>
        in (case time_sleep e delay_seconds of
              Some err \<Rightarrow> (Inl err, i1, t1 @ [Sleep delay_seconds])
            | None \<Rightarrow>
                let t2 = t1 @ [Sleep delay_seconds, GetWindowsWithTitle app_title]
                in (case windows_with_title e app_title of
                      [] \<Rightarrow> (Inl NoHwnd, i1, t2)
                    | h # _ \<Rightarrow>
                        let i2 = i1\<lparr>hwnd := Some h\<rparr>
                        in if h = 0 then (Inl NoHwnd, i2, t2)
                           else (Inr (), i2,
                                 t2 @ dbg i2 ''Success'' [Txt ''Created an application.'']
                                    @ [ThreadStart]))))"

definition close :: "Instance \<Rightarrow> unit outcome" where
  "close i =
     (if kill i then (Inr (), i, [])
      else with_hwnd i (\<lambda>h.
        let i1 = i\<lparr>kill := True\<rparr>;
            t1 = dbg i1 ''Processing'' [Txt ''Closing application.''];
            t2 = (case process i1 of
                    Some p \<Rightarrow> dbg i1 ''Processing'' [Txt ''Closing subprocess.''] @ [Terminate p]
                  | None \<Rightarrow> [PostMessage h WM_CLOSE 0 0]);
            i2 = i1\<lparr>process := None, hwnd := None\<rparr>
        in (Inr (), i2, t1 @ t2 @ dbg i2 ''Success'' [Txt ''Closed application.''])))"

subsection \<open>Window placement\<close>

definition set_monitor :: "env \<Rightarrow> Instance \<Rightarrow> int \<Rightarrow> unit outcome" where
  "set_monitor e i monitor_number = with_hwnd i (\<lambda>h.
     let monitor_info = display_monitors e;
         n = int (length monitor_info)
     in if monitor_number < n \<and> monitor_number > - n then
          (case monitor_info ! nat (if monitor_number < 0 then n + monitor_number
                                    else monitor_number) of
             (screen_left, screen_top, _, _) \<Rightarrow>
               (Inr (), i,
                [EnumDisplayMonitors,
                 SetWindowPos h HWND_TOP screen_left screen_top 0 0 SWP_NOSIZE]))
        else (Inl InvalidScreen, i, [EnumDisplayMonitors]))"

definition enter_full_screen :: "Instance \<Rightarrow> unit outcome" where
  "enter_full_screen i = with_hwnd i (\<lambda>h.
     (Inr (), i, dbg i ''Info'' [Txt ''Entering full screen.''] @ [ShowWindow h SW_MAXIMIZE]))"

definition exit_full_screen :: "Instance \<Rightarrow> unit outcome" where
  "exit_full_screen i = with_hwnd i (\<lambda>h.
     (Inr (), i, dbg i ''Info'' [Txt ''Exiting full screen.''] @ [ShowWindow h SW_NORMAL]))"

definition get_window_size :: "env \<Rightarrow> Instance \<Rightarrow> (int \<times> int) outcome" where
  "get_window_size e i = with_hwnd i (\<lambda>h.
     (case window_rect e h of
        (r0, r1, r2, r3) \<Rightarrow>
          let width = r2 - r0; height = r3 - r1
          in (Inr (width, height), i, [GetWindowRect h])))"

definition get_window_position :: "env \<Rightarrow> Instance \<Rightarrow> (int \<times> int) outcome" where
  "get_window_position e i = with_hwnd i (\<lambda>h.
     (case window_rect e h of
        (r0, r1, r2, r3) \<Rightarrow>
          let x = (if r0 \<ge> 0 then r0 else 0);
              y = (if r1 \<ge> 0 then r1 else 0)
          in (Inr (x, y), i, [GetWindowRect h])))"

definition set_window_dimensions :: "env \<Rightarrow> Instance \<Rightarrow> int \<Rightarrow> int \<Rightarrow> unit outcome" where
  "set_window_dimensions e i width height = with_hwnd i (\<lambda>h.
     then_do
       (Inr (), i,
        dbg i ''Info'' [Txt ''Setting window dimensions to '', Num width, Txt ''x'', Num height,
                        Txt ''.''])
       (\<lambda>_ i. then_do (get_window_position e i)
          (\<lambda>(x, y) i.
             (Inr (), i,
              [SetWindowPos h 0 x y width height (SWP_NOMOVE OR SWP_NOZORDER)]))))"

definition set_window_position :: "Instance \<Rightarrow> int \<Rightarrow> int \<Rightarrow> unit outcome" where
  "set_window_position i x y = with_hwnd i (\<lambda>h.
     (Inr (), i,
      dbg i ''Info'' [Txt ''Setting window position to ('', Num x, Txt '', '', Num y, Txt '').'']
        @ [SetWindowPos h HWND_TOP x y 0 0 SWP_NOSIZE]))"

subsection \<open>Input synthesis\<close>

definition left_click :: "env \<Rightarrow> Instance \<Rightarrow> int \<Rightarrow> int \<Rightarrow> unit outcome" where
  "left_click e i x y = with_hwnd i (\<lambda>h.
     (Inr (), i,
      dbg i ''Info'' [Txt ''Left clicking at ('', Num x, Txt '', '', Num y, Txt '').'']
        @ [SendMessage h WM_LBUTTONDOWN MK_LBUTTON (makelong e x y),
           Sleep (Finite (1 / 10)),
           SendMessage h WM_LBUTTONUP MK_LBUTTON (makelong e x y)]))"

definition right_click :: "env \<Rightarrow> Instance \<Rightarrow> int \<Rightarrow> int \<Rightarrow> unit outcome" where
  "right_click e i x y = with_hwnd i (\<lambda>h.
     (Inr (), i,
      dbg i ''Info'' [Txt ''Right clicking at ('', Num x, Txt '', '', Num y, Txt '').'']
        @ [SendMessage h WM_RBUTTONDOWN MK_RBUTTON (makelong e x y),
           Sleep (Finite (1 / 10)),
           SendMessage h WM_RBUTTONUP MK_RBUTTON (makelong e x y)]))"

text \<open>\<open>for _ in range(2): self.right_click(x, y)\<close>: the loop body runs twice.\<close>

definition right_double_click :: "env \<Rightarrow> Instance \<Rightarrow> int \<Rightarrow> int \<Rightarrow> unit outcome" where
  "right_double_click e i x y = with_hwnd i (\<lambda>h.
     then_do (right_click e i x y) (\<lambda>_ i. right_click e i x y))"

definition left_double_click :: "env \<Rightarrow> Instance \<Rightarrow> int \<Rightarrow> int \<Rightarrow> unit outcome" where
  "left_double_click e i x y = with_hwnd i (\<lambda>h.
     then_do (left_click e i x y) (\<lambda>_ i. left_click e i x y))"

text \<open>\<open>str.lower\<close> on the letters A to Z.  Other code points are left as they are: none
  of them lowers to a letter of \<open>enter\<close> or \<open>tab\<close>, which is all \<open>press_key\<close> asks.\<close>

definition lower_cp :: "nat \<Rightarrow> nat" where
  "lower_cp c = (if 65 \<le> c \<and> c \<le> 90 then c + 32 else c)"

definition lower :: "pystr \<Rightarrow> pystr" where
  "lower s = map lower_cp s"

text \<open>The dictionary \<open>special_keys\<close> of \<open>press_key\<close>.\<close>

definition special_keys :: "pystr \<rightharpoonup> int" where
  "special_keys =
     map_of [(map of_char ''enter'', VK_RETURN), (map of_char ''tab'', VK_TAB)]"

definition press_key :: "Instance \<Rightarrow> key \<Rightarrow> unit outcome" where
  "press_key i k = with_hwnd i (\<lambda>h.
     let t0 = dbg i ''Info'' [Txt ''Pressing key '', KeyP k, Txt ''.'']
     in (case k of
           StrKey s \<Rightarrow>
             (case s of
                [c] \<Rightarrow> (Inr (), i, t0 @ [SendMessage h WM_CHAR (int c) 0])
              | _ \<Rightarrow>
                  (case special_keys (lower s) of
                     Some vk \<Rightarrow>
                       (Inr (), i,
                        t0 @ [SendMessage h WM_KEYDOWN vk 0, Sleep (Finite (1 / 10)),
                              SendMessage h WM_KEYUP vk 0])
                   | None \<Rightarrow> (Inr (), i, t0)))
         | IntKey n \<Rightarrow>
             if n \<noteq> 0 then
               (Inr (), i,
                t0 @ [SendMessage h WM_KEYUP n 0, Sleep (Finite (1 / 10)), SendMessage h WM_KEYUP n 0])
             else (Inr (), i, t0)))"

text \<open>The loop of \<open>typewrite\<close>: one \<open>WM_CHAR\<close> message, then \<open>time.sleep(delay)\<close>,
  which ends the loop when it raises.\<close>

fun type_chars :: "env \<Rightarrow> int \<Rightarrow> pystr \<Rightarrow> pyfloat \<Rightarrow> (error + unit) \<times> call list" where
  "type_chars e h [] delay = (Inr (), [])"
| "type_chars e h (c # cs) delay =
     (case time_sleep e delay of
        Some err \<Rightarrow> (Inl err, [SendMessage h WM_CHAR (int c) 0, Sleep delay])
      | None \<Rightarrow>
          (case type_chars e h cs delay of
             (r, t) \<Rightarrow> (r, SendMessage h WM_CHAR (int c) 0 # Sleep delay # t)))"

definition typewrite :: "env \<Rightarrow> Instance \<Rightarrow> pystr \<Rightarrow> pyfloat \<Rightarrow> unit outcome" where
  "typewrite e i text delay = with_hwnd i (\<lambda>h.
     (case type_chars e h text delay of
        (r, t) \<Rightarrow> (r, i, dbg i ''Info'' [Txt (''Typing '' @ [CHR 0x22]), StrP text, Txt (CHR 0x22 # ''.'')]
                       @ t)))"

subsection \<open>Image matching\<close>

definition find_image_on_screen ::
  "env \<Rightarrow> Instance \<Rightarrow> string \<Rightarrow> pyfloat \<Rightarrow> (int \<times> int) option outcome" where
  "find_image_on_screen e i image_path confidence_threshhold = with_hwnd i (\<lambda>h.
     if \<not> path_exists e image_path then (Inl InvalidPath, i, [PathExists image_path])
     else
       (case window_rect e h of (r0, r1, r2, r3) \<Rightarrow>
        case bitmap_info e h of (bmHeight, bmWidth) \<Rightarrow>
          let width = r2 - r0;
              height = r3 - r1;
              t = [PathExists image_path, Imread image_path, GetWindowRect h,
                   GetWindowDC h, CreateDCFromHandle, CreateCompatibleDC, CreateBitmap,
                   CreateCompatibleBitmap width height, SelectObject,
                   BitBlt width height SRCCOPY, GetInfo, GetBitmapBits,
                   Frombuffer, Reshape bmHeight bmWidth, CvtColor COLOR_BGR2RGB,
                   MatchTemplate TM_CCOEFF_NORMED]
          in (case imread_shape e image_path of
                None \<Rightarrow> (Inl Cv2Error, i, t)
              | Some (shape0, shape1) \<Rightarrow>
                  (case best_match e h image_path of
                     None \<Rightarrow> (Inl Cv2Error, i, t)
                   | Some (max_val, loc0, loc1) \<Rightarrow>
                       let confidence = max_val;
                           center_x = loc0 + r0 + shape1 div 2;
                           center_y = loc1 + r1 + shape0 div 2
                       in if float_lt confidence confidence_threshhold
                          then (Inr None, i, t @ [MinMaxLoc])
                          else (Inr (Some (center_x, center_y)), i, t @ [MinMaxLoc])))))"

subsection \<open>Sequences of method calls\<close>

text \<open>A method call with its arguments; \<open>exec\<close> runs it and keeps the exception (if
  any), the instance afterwards and the calls made.  \<open>run\<close> runs a list of them, each
  against the answers the world gives at that moment; a caller may catch an exception
  and go on, so \<open>run\<close> goes on after one.  The \<open>close\<close> that the handler thread makes
  is a \<open>Close\<close> step like any other.\<close>

datatype op =
    Open string string pyfloat
  | Close
  | SetMonitor int
  | EnterFullScreen
  | ExitFullScreen
  | GetWindowSize
  | GetWindowPosition
  | SetWindowDimensions int int
  | SetWindowPosition int int
  | LeftClick int int
  | RightClick int int
  | RightDoubleClick int int
  | LeftDoubleClick int int
  | PressKey key
  | Typewrite pystr pyfloat
  | FindImageOnScreen string pyfloat

definition forget :: "'a outcome \<Rightarrow> error option \<times> Instance \<times> call list" where
  "forget m = (case m of (Inl err, i, t) \<Rightarrow> (Some err, i, t) | (Inr _, i, t) \<Rightarrow> (None, i, t))"

fun exec :: "env \<Rightarrow> op \<Rightarrow> Instance \<Rightarrow> error option \<times> Instance \<times> call list" where
  "exec e (Open p t d) i = forget (open e i p t d)"
| "exec e Close i = forget (close i)"
| "exec e (SetMonitor n) i = forget (set_monitor e i n)"
| "exec e EnterFullScreen i = forget (enter_full_screen i)"
| "exec e ExitFullScreen i = forget (exit_full_screen i)"
| "exec e GetWindowSize i = forget (get_window_size e i)"
| "exec e GetWindowPosition i = forget (get_window_position e i)"
| "exec e (SetWindowDimensions w h) i = forget (set_window_dimensions e i w h)"
| "exec e (SetWindowPosition x y) i = forget (set_window_position i x y)"
| "exec e (LeftClick x y) i = forget (left_click e i x y)"
| "exec e (RightClick x y) i = forget (right_click e i x y)"
| "exec e (RightDoubleClick x y) i = forget (right_double_click e i x y)"
| "exec e (LeftDoubleClick x y) i = forget (left_double_click e i x y)"
| "exec e (PressKey k) i = forget (press_key i k)"
| "exec e (Typewrite s d) i = forget (typewrite e i s d)"
| "exec e (FindImageOnScreen p c) i = forget (find_image_on_screen e i p c)"

fun run :: "(env \<times> op) list \<Rightarrow> Instance \<Rightarrow> Instance" where
  "run [] i = i"
| "run ((e, c) # rest) i = run rest (fst (snd (exec e c i)))"

subsection \<open>The close handler\<close>

text \<open>\<open>_close_handler\<close> is the body of the thread that the constructor and \<open>open\<close>
  start.  Here it runs to its end while no other thread writes to the instance;
  \<open>valid k\<close> is what the \<open>k\<close>-th call of \<open>win32gui.IsWindow\<close> answers.  The loop
  \<open>while not self.__kill\<close> can go on for ever, so \<open>watch\<close> takes fuel and is \<open>None\<close>
  when the fuel runs out.\<close>

fun watch :: "nat \<Rightarrow> (nat \<Rightarrow> bool) \<Rightarrow> nat \<Rightarrow> Instance \<Rightarrow> call list option" where
  "watch 0 valid k i = None"
| "watch (Suc fuel) valid k i =
     (if kill i then Some []
      else if \<not> valid k then Some [IsWindow (hwnd i)]
      else map_option (\<lambda>t. IsWindow (hwnd i) # Sleep (Finite 1) # t) (watch fuel valid (Suc k) i))"

definition close_handler :: "nat \<Rightarrow> (nat \<Rightarrow> bool) \<Rightarrow> Instance \<Rightarrow> unit outcome option" where
  "close_handler fuel valid i =
     (case watch fuel valid 0 i of
        None \<Rightarrow> None
      | Some t \<Rightarrow>
          Some (case close i of
                  (r, i', t') \<Rightarrow>
                    (r, i',
                     dbg i ''Info'' [Txt ''Created close handler.''] @ t
                       @ dbg i ''Info'' [Txt ''Detected application close in close handler.'']
                       @ t')))"

subsection \<open>Reading a list of calls\<close>





fun is_set_window_pos :: "call \<Rightarrow> bool" where
  "is_set_window_pos (SetWindowPos _ _ _ _ _ _ _) = True"
| "is_set_window_pos _ = False"

fun is_match_template :: "call \<Rightarrow> bool" where
  "is_match_template (MatchTemplate _) = True"
| "is_match_template _ = False"

fun is_popen :: "call \<Rightarrow> bool" where
  "is_popen (Popen _) = True"
| "is_popen _ = False"

subsection \<open>Runs in which no \<open>open\<close> fails half-way\<close>

text \<open>An \<open>open\<close> fails half-way when it raises and has changed the instance by then: it
  has stored the subprocess it started, and then the sleep raises or no window is found.
  A run is \<open>clean\<close> when none of its calls does.\<close>

fun fails_after_start :: "env \<Rightarrow> op \<Rightarrow> Instance \<Rightarrow> bool" where
  "fails_after_start e (Open p t d) i =
     (fst (open e i p t d) \<noteq> Inr () \<and> fst (snd (open e i p t d)) \<noteq> i)"
| "fails_after_start e _ i = False"

fun clean :: "(env \<times> op) list \<Rightarrow> Instance \<Rightarrow> bool" where
  "clean [] i = True"
| "clean ((e, c) # rest) i =
     (\<not> fails_after_start e c i \<and> clean rest (fst (snd (exec e c i))))"

subsection \<open>A sample world\<close>

text \<open>Two files exist, of which \<open>icon.png\<close> is an image; \<open>app.exe\<close> opens a window
  titled \<open>App\<close> with handle 42, there are two monitors side by side, every window hangs
  8 pixels over the left edge, and a sleep of more than 4294967 seconds is refused.\<close>

definition world :: env where
  "world =
     \<lparr>path_exists = (\<lambda>p. p = ''app.exe'' \<or> p = ''icon.png''),
      popen = (\<lambda>_. 1),
      windows_with_title = (\<lambda>t. if t = ''App'' then [42] else []),
      display_monitors = [(0, 0, 1920, 1080), (1920, 0, 3840, 1080)],
      window_rect = (\<lambda>_. (- 8, 30, 792, 630)),
      makelong = (\<lambda>x y. x + 65536 * y),
      out_of_range = (\<lambda>r. r < - 4294967 \<or> 4294967 < r),
      imread_shape = (\<lambda>p. if p = ''icon.png'' then Some (21, 33) else None),
      bitmap_info = (\<lambda>_. (600, 800)),
      best_match = (\<lambda>_ _. Some (Finite (9 / 10), 100, 200))\<rparr>"

text \<open>A fresh instance without a window, one attached to window 7, and the state a
  completed \<open>close\<close> leaves.\<close>

definition detached :: Instance where
  "detached = \<lparr>hwnd = None, process = None, kill = False, debug = False\<rparr>"

definition attached :: Instance where
  "attached = \<lparr>hwnd = Some 7, process = None, kill = False, debug = False\<rparr>"

definition after_close :: Instance where
  "after_close = \<lparr>hwnd = None, process = None, kill = True, debug = False\<rparr>"

text \<open>An instance that was closed and then opened again in the sample world.\<close>

definition reopened :: Instance where
  "reopened = \<lparr>hwnd = Some 42, process = Some 1, kill = True, debug = False\<rparr>"

subsection \<open>Two predicates used below\<close>

text \<open>A subprocess reference is held only together with a window handle.\<close>

definition covered :: "Instance \<Rightarrow> bool" where
  "covered i = (process i \<noteq> None \<longrightarrow> truthy (hwnd i))"


section \<open>Properties\<close>

subsection \<open>Which methods touch the instance\<close>

lemma with_hwnd_None: "hwnd i = None \<Longrightarrow> with_hwnd i body = (Inl NoOpenedProcess, i, [])"
  by (simp add: with_hwnd_def)

lemma with_hwnd_Some: "hwnd i = Some h \<Longrightarrow> h \<noteq> 0 \<Longrightarrow> with_hwnd i body = body h"
  by (simp add: with_hwnd_def)

lemma with_hwnd_state:
  "(\<And>h. fst (snd (body h)) = i) \<Longrightarrow> fst (snd (with_hwnd i body)) = i"
  by (simp add: with_hwnd_def split: option.splits)




lemma set_monitor_state: "fst (snd (set_monitor e i n)) = i"
  unfolding set_monitor_def by (rule with_hwnd_state) (simp add: Let_def split: prod.splits)

lemma enter_full_screen_state: "fst (snd (enter_full_screen i)) = i"
  unfolding enter_full_screen_def by (rule with_hwnd_state) simp

lemma exit_full_screen_state: "fst (snd (exit_full_screen i)) = i"
  unfolding exit_full_screen_def by (rule with_hwnd_state) simp

lemma get_window_size_state: "fst (snd (get_window_size e i)) = i"
  unfolding get_window_size_def by (rule with_hwnd_state) (simp add: Let_def split: prod.splits)

lemma get_window_position_state: "fst (snd (get_window_position e i)) = i"
  unfolding get_window_position_def
  by (rule with_hwnd_state) (simp add: Let_def split: prod.splits)

lemma get_window_position_cases:
  "get_window_position e i = (Inl NoOpenedProcess, i, []) \<or>
   (\<exists>x y h. get_window_position e i = (Inr (x, y), i, [GetWindowRect h]))"
  by (simp add: get_window_position_def with_hwnd_def Let_def split: option.splits prod.splits)

lemma set_window_dimensions_state: "fst (snd (set_window_dimensions e i w h)) = i"
  unfolding set_window_dimensions_def
  using get_window_position_cases [of e i]
  by (intro with_hwnd_state) (auto simp: then_do_def)

lemma set_window_position_state: "fst (snd (set_window_position i x y)) = i"
  unfolding set_window_position_def by (rule with_hwnd_state) simp

lemma left_click_state: "fst (snd (left_click e i x y)) = i"
  unfolding left_click_def by (rule with_hwnd_state) simp

lemma right_click_state: "fst (snd (right_click e i x y)) = i"
  unfolding right_click_def by (rule with_hwnd_state) simp

lemma then_do_state:
  assumes "fst (snd m) = i" and "\<And>v. fst (snd (f v i)) = i"
  shows "fst (snd (then_do m f)) = i"
proof -
  obtain r t where m: "m = (r, i, t)"
    using assms(1) by (cases m) auto
  show ?thesis
  proof (cases r)
    case (Inl err)
    then show ?thesis by (simp add: m then_do_def)
  next
    case (Inr v)
    obtain r' i' t' where f: "f v i = (r', i', t')"
      by (cases "f v i")
    with assms(2) [of v] have "i' = i" by simp
    with f Inr show ?thesis by (simp add: m then_do_def)
  qed
qed

lemma left_double_click_state: "fst (snd (left_double_click e i x y)) = i"
  unfolding left_double_click_def
  by (intro with_hwnd_state then_do_state left_click_state)

lemma right_double_click_state: "fst (snd (right_double_click e i x y)) = i"
  unfolding right_double_click_def
  by (intro with_hwnd_state then_do_state right_click_state)

lemma press_key_state: "fst (snd (press_key i k)) = i"
  unfolding press_key_def
  by (rule with_hwnd_state) (simp add: Let_def split: key.splits list.splits option.splits)

lemma typewrite_state: "fst (snd (typewrite e i s d)) = i"
  unfolding typewrite_def by (rule with_hwnd_state) (simp split: prod.splits)

lemma find_image_on_screen_state: "fst (snd (find_image_on_screen e i p c)) = i"
  unfolding find_image_on_screen_def
  by (rule with_hwnd_state) (simp add: Let_def split: prod.splits option.splits)

lemma forget_state: "fst (snd (forget m)) = fst (snd m)"
  by (cases m) (auto simp: forget_def split: sum.splits)


lemmas method_state =
  set_monitor_state enter_full_screen_state exit_full_screen_state get_window_size_state
  get_window_position_state set_window_dimensions_state set_window_position_state
  left_click_state right_click_state left_double_click_state right_double_click_state
  press_key_state typewrite_state find_image_on_screen_state

text \<open>Only \<open>open\<close> and \<open>close\<close> assign to a field.\<close>

lemma exec_state:
  "fst (snd (exec e c i)) =
     (case c of
        Open p t d \<Rightarrow> fst (snd (open e i p t d))
      | Close \<Rightarrow> fst (snd (close i))
      | _ \<Rightarrow> i)"
  by (cases c) (simp_all add: forget_state method_state)

lemma open_kill: "kill (fst (snd (open e i p t d))) = kill i"
  by (simp add: open_def Let_def split: list.splits option.splits)

lemma close_kill: "kill i \<Longrightarrow> kill (fst (snd (close i)))"
  by (simp add: close_def)

lemma exec_kill: "kill i \<Longrightarrow> kill (fst (snd (exec e c i)))"
  by (cases c) (simp_all add: forget_state method_state open_kill close_kill)

text \<open>No method clears the kill flag.\<close>

lemma run_kill: "kill i \<Longrightarrow> kill (run steps i)"
  by (induction steps arbitrary: i) (auto simp: exec_kill)

subsection \<open>\<open>close\<close>\<close>

text \<open>
  Claim C8.  \<open>close\<close> is idempotent.  A \<open>close\<close> that finds a handle and the kill flag
  clear returns normally, sets the kill flag and leaves no handle.  From then on, that is
  in any state with the kill flag set and after any further method calls \<open>steps\<close>,
  \<open>close\<close> returns at once: no exception, the instance as it was, no external call.
\<close>

theorem close_idempotent:
  "(hwnd i = Some h \<and> h \<noteq> 0 \<and> \<not> kill i \<longrightarrow>
      fst (close i) = Inr () \<and> kill (fst (snd (close i))) \<and> hwnd (fst (snd (close i))) = None) \<and>
   (kill i \<longrightarrow>
      close i = (Inr (), i, []) \<and>
      close (run steps i) = (Inr (), run steps i, []))"
  using run_kill [of i steps]
  by (auto simp: close_def with_hwnd_def Let_def)

theorem close_idempotent_witness:
  "hwnd attached = Some 7 \<and> (7::int) \<noteq> 0 \<and> \<not> kill attached \<and>
   fst (snd (close attached)) = after_close \<and> kill after_close \<and> hwnd after_close = None \<and>
   close after_close = (Inr (), after_close, []) \<and>
   run [(world, Open ''app.exe'' ''App'' (Finite 2)), (world, Close)] after_close =
     \<lparr>hwnd = Some 42, process = Some 1, kill = True, debug = False\<rparr> \<and>
   fst (close (run [(world, Open ''app.exe'' ''App'' (Finite 2)), (world, Close)] after_close)) = Inr ()"
  using close_idempotent [of attached 7 "[]"]
    close_idempotent [of after_close 7 "[(world, Open ''app.exe'' ''App'' (Finite 2)), (world, Close)]"]
  by (simp add: attached_def after_close_def close_def with_hwnd_def Let_def dbg_def world_def
      open_def truthy_def forget_def time_sleep_def)

subsection \<open>\<open>get_window_position\<close>\<close>

text \<open>
  Claim C10.  With a window attached, \<open>get_window_position\<close> returns the left and top
  coordinate of the window rectangle, each replaced by 0 when it is negative.  So both
  returned coordinates are at least 0, and when the rectangle starts left of or above
  the origin the pair returned is not the window's position.
\<close>

theorem get_window_position_clamps:
  assumes "hwnd i = Some h" and "h \<noteq> 0" and "window_rect e h = (r0, r1, r2, r3)"
  shows "get_window_position e i = (Inr (max 0 r0, max 0 r1), i, [GetWindowRect h]) \<and>
         0 \<le> max 0 r0 \<and> 0 \<le> max 0 r1 \<and>
         max 0 r0 = (if 0 \<le> r0 then r0 else 0) \<and>
         max 0 r1 = (if 0 \<le> r1 then r1 else 0) \<and>
         (r0 < 0 \<or> r1 < 0 \<longrightarrow> (max 0 r0, max 0 r1) \<noteq> (r0, r1))"
  using assms by (auto simp: get_window_position_def with_hwnd_def Let_def max_def)

theorem get_window_position_clamps_witness:
  "hwnd attached = Some 7 \<and> (7::int) \<noteq> 0 \<and> window_rect world 7 = (- 8, 30, 792, 630) \<and>
   get_window_position world attached = (Inr (0, 30), attached, [GetWindowRect 7])"
  using get_window_position_clamps [of attached 7 world "- 8" 30 792 630]
  by (simp add: attached_def world_def)

subsection \<open>Methods without a window\<close>

text \<open>
  Claim C1, amended.  When the instance holds no window handle (\<open>_hwnd\<close> is \<open>None\<close>),
  each of \<open>set_monitor\<close>, \<open>enter_full_screen\<close>, \<open>exit_full_screen\<close>, \<open>get_window_size\<close>,
  \<open>get_window_position\<close>, \<open>set_window_dimensions\<close>, \<open>set_window_position\<close>,
  \<open>left_click\<close>, \<open>right_click\<close>, \<open>left_double_click\<close>, \<open>right_double_click\<close>,
  \<open>press_key\<close>, \<open>typewrite\<close> and \<open>find_image_on_screen\<close> raises \<open>NoOpenedProcess\<close>,
  leaves the instance as it was and makes no external call.  \<open>close\<close> does the same when
  the kill flag is clear; when the kill flag is set it returns normally instead, again
  with the instance as it was.
\<close>

theorem no_handle_raises:
  assumes "hwnd i = None"
  shows "close i = (if kill i then (Inr (), i, []) else (Inl NoOpenedProcess, i, [])) \<and>
         set_monitor e i n = (Inl NoOpenedProcess, i, []) \<and>
         enter_full_screen i = (Inl NoOpenedProcess, i, []) \<and>
         exit_full_screen i = (Inl NoOpenedProcess, i, []) \<and>
         get_window_size e i = (Inl NoOpenedProcess, i, []) \<and>
         get_window_position e i = (Inl NoOpenedProcess, i, []) \<and>
         set_window_dimensions e i w h = (Inl NoOpenedProcess, i, []) \<and>
         set_window_position i x y = (Inl NoOpenedProcess, i, []) \<and>
         left_click e i x y = (Inl NoOpenedProcess, i, []) \<and>
         right_click e i x y = (Inl NoOpenedProcess, i, []) \<and>
         left_double_click e i x y = (Inl NoOpenedProcess, i, []) \<and>
         right_double_click e i x y = (Inl NoOpenedProcess, i, []) \<and>
         press_key i k = (Inl NoOpenedProcess, i, []) \<and>
         typewrite e i s d = (Inl NoOpenedProcess, i, []) \<and>
         find_image_on_screen e i p c = (Inl NoOpenedProcess, i, [])"
  using assms
  by (simp add: close_def set_monitor_def enter_full_screen_def exit_full_screen_def
      get_window_size_def get_window_position_def set_window_dimensions_def
      set_window_position_def left_click_def right_click_def left_double_click_def
      right_double_click_def press_key_def typewrite_def find_image_on_screen_def
      with_hwnd_None)

theorem no_handle_raises_witness:
  "hwnd detached = None \<and> \<not> kill detached \<and>
   close detached = (Inl NoOpenedProcess, detached, []) \<and>
   press_key detached (IntKey 13) = (Inl NoOpenedProcess, detached, []) \<and>
   find_image_on_screen world detached ''icon.png'' (Finite 0) =
     (Inl NoOpenedProcess, detached, [])"
  using no_handle_raises [of detached world 0 0 0 0 0 "IntKey 13" "[]" "Finite 0" "''icon.png''"
      "Finite 0"]
  by (simp add: detached_def)

text \<open>The claim as it stands fails for \<open>close\<close>: an instance attached to window 7 is
  closed once; it then holds no handle, and a second \<open>close\<close> returns without raising.\<close>

theorem close_without_handle_counterexample:
  "run [(world, Close)] attached = after_close \<and>
   hwnd after_close = None \<and>
   close after_close = (Inr (), after_close, []) \<and>
   fst (close after_close) \<noteq> Inl NoOpenedProcess"
  by (simp add: attached_def after_close_def close_def with_hwnd_def forget_def dbg_def)

subsection \<open>\<open>press_key\<close>\<close>



subsection \<open>\<open>find_image_on_screen\<close>\<close>

text \<open>
  Claim C2.  With a window attached and an image path that exists, where the image
  loads with shape \<open>(rows, cols)\<close> and the match answers \<open>(conf, (x, y))\<close>,
  \<open>find_image_on_screen\<close> calls \<open>matchTemplate\<close> exactly once.  It returns \<open>None\<close> when
  the confidence (\<open>max_val\<close>) is strictly below \<open>confidence_threshhold\<close>, and otherwise
  the pair of the match location plus the window rectangle's left (top) plus half the
  template's width (height), the half taken with Python's \<open>//\<close>.
\<close>

theorem find_image_on_screen_match:
  assumes "hwnd i = Some h" and "h \<noteq> 0" and "path_exists e p"
    and "imread_shape e p = Some (rows, cols)"
    and "window_rect e h = (r0, r1, r2, r3)"
    and "best_match e h p = Some (conf, x, y)"
  shows "length (filter is_match_template (snd (snd (find_image_on_screen e i p thr)))) = 1 \<and>
         fst (find_image_on_screen e i p thr) =
           Inr (if float_lt conf thr then None
                else Some (x + r0 + cols div 2, y + r1 + rows div 2))"
  using assms
  by (simp add: find_image_on_screen_def with_hwnd_def Let_def split: prod.splits)

theorem find_image_on_screen_match_witness:
  "hwnd attached = Some 7 \<and> (7::int) \<noteq> 0 \<and> path_exists world ''icon.png'' \<and>
   imread_shape world ''icon.png'' = Some (21, 33) \<and>
   window_rect world 7 = (- 8, 30, 792, 630) \<and>
   best_match world 7 ''icon.png'' = Some (Finite (9 / 10), 100, 200) \<and>
   fst (find_image_on_screen world attached ''icon.png'' (Finite (1 / 2))) = Inr (Some (108, 240)) \<and>
   fst (find_image_on_screen world attached ''icon.png'' (Finite 1)) = Inr None"
  using find_image_on_screen_match [of attached 7 world "''icon.png''" 21 33 "- 8" 30 792 630
      "Finite (9 / 10)" 100 200 "Finite (1 / 2)"]
    find_image_on_screen_match [of attached 7 world "''icon.png''" 21 33 "- 8" 30 792 630
      "Finite (9 / 10)" 100 200 "Finite 1"]
  by (simp add: attached_def world_def)

subsection \<open>\<open>open\<close>\<close>

text \<open>
  Claim C6, amended.  \<open>open\<close> on an instance that already has a window raises
  \<open>ProcessAlreadyOpened\<close>; \<open>open\<close> on one without a window, with an \<open>exe_path\<close> that does not
  exist, raises \<open>InvalidPath\<close>.  In either case, and so whenever a window is attached
  or the path does not exist, one of the two is raised, the instance is as it was and no
  subprocess has been started.
\<close>

theorem open_guards:
  "(truthy (hwnd i) \<longrightarrow> open e i p t d = (Inl ProcessAlreadyOpened, i, [])) \<and>
   (\<not> truthy (hwnd i) \<and> \<not> path_exists e p \<longrightarrow>
      open e i p t d = (Inl InvalidPath, i, [PathExists p])) \<and>
   (truthy (hwnd i) \<or> \<not> path_exists e p \<longrightarrow>
      (fst (open e i p t d) = Inl ProcessAlreadyOpened \<or> fst (open e i p t d) = Inl InvalidPath) \<and>
      fst (snd (open e i p t d)) = i \<and>
      filter is_popen (snd (snd (open e i p t d))) = [])"
  by (simp add: open_def)

theorem open_guards_witness:
  "truthy (hwnd attached) \<and>
   open world attached ''app.exe'' ''App'' (Finite 2) = (Inl ProcessAlreadyOpened, attached, []) \<and>
   \<not> truthy (hwnd detached) \<and> \<not> path_exists world ''none.exe'' \<and>
   open world detached ''none.exe'' ''App'' (Finite 2) = (Inl InvalidPath, detached, [PathExists ''none.exe''])"
  using open_guards [of attached world "''app.exe''" "''App''" "Finite 2"]
    open_guards [of detached world "''none.exe''" "''App''" "Finite 2"]
  by (simp add: attached_def detached_def truthy_def world_def)

text \<open>The claim as it stands fails where both conditions hold: with a window attached
  and a path that does not exist, the handle is tested first and \<open>open\<close> raises
  \<open>ProcessAlreadyOpened\<close>, not \<open>InvalidPath\<close>.\<close>

theorem open_missing_path_counterexample:
  "\<not> path_exists world ''none.exe'' \<and>
   open world attached ''none.exe'' ''App'' (Finite 2) =
     (Inl ProcessAlreadyOpened, attached, []) \<and>
   fst (open world attached ''none.exe'' ''App'' (Finite 2)) \<noteq> Inl InvalidPath"
  by (simp add: world_def attached_def open_def truthy_def)

subsection \<open>Handle and subprocess\<close>

lemma open_returns:
  "fst (open e i p t d) = Inr () \<Longrightarrow>
   truthy (hwnd (fst (snd (open e i p t d)))) \<and> process (fst (snd (open e i p t d))) \<noteq> None"
  by (auto simp: open_def Let_def truthy_def split: if_splits list.splits option.splits)

lemma open_covered:
  assumes "covered i" and "\<not> fails_after_start e (Open p t d) i"
  shows "covered (fst (snd (open e i p t d)))"
proof (cases "fst (open e i p t d) = Inr ()")
  case True
  then show ?thesis using open_returns [of e i p t d] by (simp add: covered_def)
next
  case False
  with assms(2) have "fst (snd (open e i p t d)) = i" by simp
  with assms(1) show ?thesis by simp
qed

lemma close_covered: "covered i \<Longrightarrow> covered (fst (snd (close i)))"
  by (auto simp: close_def with_hwnd_def Let_def covered_def split: option.splits)

lemma exec_covered:
  "covered i \<Longrightarrow> \<not> fails_after_start e c i \<Longrightarrow> covered (fst (snd (exec e c i)))"
proof (cases c)
  case (Open p t d)
  assume "covered i" and "\<not> fails_after_start e c i"
  then show ?thesis
    using Open open_covered [of i e p t d] by (simp add: forget_state)
qed (simp_all add: forget_state method_state close_covered)

lemma run_covered: "covered i \<Longrightarrow> clean steps i \<Longrightarrow> covered (run steps i)"
  by (induction steps arbitrary: i) (auto simp: exec_covered)

text \<open>
  Claim C3, amended.  Take a newly constructed instance and any sequence of method calls
  in which no \<open>open\<close> fails half-way, that is, raises after it has stored the subprocess
  it started (because the sleep raises or no window with the title is found).  In the
  state reached, a subprocess reference is held only if a window handle is held.  An
  \<open>open\<close> that returns normally leaves both held.  A \<open>close\<close> that finds a window
  attached and the kill flag clear returns normally and leaves neither.
\<close>

theorem handle_covers_process:
  "(clean steps (fst (init h0 d0)) \<longrightarrow>
      (process (run steps (fst (init h0 d0))) \<noteq> None \<longrightarrow>
         hwnd (run steps (fst (init h0 d0))) \<noteq> None)) \<and>
   (fst (open e i p t d) = Inr () \<longrightarrow>
      hwnd (fst (snd (open e i p t d))) \<noteq> None \<and> process (fst (snd (open e i p t d))) \<noteq> None) \<and>
   (truthy (hwnd i) \<and> \<not> kill i \<longrightarrow>
      fst (close i) = Inr () \<and>
      hwnd (fst (snd (close i))) = None \<and> process (fst (snd (close i))) = None)"
proof -
  have "covered (fst (init h0 d0))"
    by (simp add: covered_def init_def)
  then have "clean steps (fst (init h0 d0)) \<Longrightarrow> covered (run steps (fst (init h0 d0)))"
    by (rule run_covered)
  then have a: "clean steps (fst (init h0 d0)) \<longrightarrow>
      (process (run steps (fst (init h0 d0))) \<noteq> None \<longrightarrow>
         hwnd (run steps (fst (init h0 d0))) \<noteq> None)"
    by (auto simp: covered_def truthy_def split: option.splits)
  have b: "fst (open e i p t d) = Inr () \<longrightarrow>
      hwnd (fst (snd (open e i p t d))) \<noteq> None \<and> process (fst (snd (open e i p t d))) \<noteq> None"
    using open_returns [of e i p t d] by (auto simp: truthy_def split: option.splits)
  have c: "truthy (hwnd i) \<and> \<not> kill i \<longrightarrow>
      fst (close i) = Inr () \<and>
      hwnd (fst (snd (close i))) = None \<and> process (fst (snd (close i))) = None"
    by (auto simp: close_def with_hwnd_def truthy_def Let_def split: option.splits)
  from a b c show ?thesis by blast
qed

theorem handle_covers_process_witness:
  "clean [(world, Open ''app.exe'' ''App'' (Finite 2)), (world, LeftClick 3 4), (world, Close)]
     (fst (init None False)) \<and>
   run [(world, Open ''app.exe'' ''App'' (Finite 2)), (world, LeftClick 3 4)]
     (fst (init None False)) =
     \<lparr>hwnd = Some 42, process = Some 1, kill = False, debug = False\<rparr> \<and>
   fst (open world detached ''app.exe'' ''App'' (Finite 2)) = Inr () \<and>
   truthy (hwnd attached) \<and> \<not> kill attached \<and>
   fst (snd (close attached)) = after_close"
  using handle_covers_process [of "[(world, Open ''app.exe'' ''App'' (Finite 2)),
        (world, LeftClick 3 4), (world, Close)]"
      None False world detached "''app.exe''" "''App''" "Finite 2"]
    handle_covers_process [of "[]" None False world attached "''app.exe''" "''App''" "Finite 2"]
  by (simp add: init_def truthy_def world_def open_def close_def left_click_def with_hwnd_def
      forget_def dbg_def detached_def attached_def after_close_def time_sleep_def)

text \<open>The claim as it stands fails.  A new instance opens \<open>app.exe\<close> but looks for a
  window title that no window has: \<open>open\<close> raises \<open>NoHwnd\<close> and the instance holds a
  subprocess and no handle.  The same happens when the sleep refuses the delay.  And an
  instance that was closed and opened again keeps its kill flag: the next \<open>close\<close>
  returns normally with handle and subprocess still held.\<close>

theorem process_without_handle_counterexample:
  "run [(world, Open ''app.exe'' ''Other'' (Finite 2))] (fst (init None False)) =
     \<lparr>hwnd = None, process = Some 1, kill = False, debug = False\<rparr> \<and>
   open world (fst (init None False)) ''app.exe'' ''App'' PosInf =
     (Inl OverflowError, \<lparr>hwnd = None, process = Some 1, kill = False, debug = False\<rparr>,
      [PathExists ''app.exe'', Popen ''app.exe'', Sleep PosInf]) \<and>
   run [(world, Close), (world, Open ''app.exe'' ''App'' (Finite 2))]
     (fst (init (Some 7) False)) =
     \<lparr>hwnd = Some 42, process = Some 1, kill = True, debug = False\<rparr> \<and>
   close \<lparr>hwnd = Some 42, process = Some 1, kill = True, debug = False\<rparr> =
     (Inr (), \<lparr>hwnd = Some 42, process = Some 1, kill = True, debug = False\<rparr>, [])"
  by (simp add: init_def truthy_def world_def open_def close_def with_hwnd_def
      forget_def dbg_def time_sleep_def)

subsection \<open>How many native calls a method makes\<close>








subsection \<open>\<open>set_window_position\<close> and \<open>set_window_dimensions\<close>\<close>

text \<open>
  Claim C7, amended.  With a window attached, \<open>set_window_position\<close> makes one
  \<open>SetWindowPos\<close> call, passing the new position, \<open>HWND_TOP\<close> and the flag \<open>SWP_NOSIZE\<close>
  alone: it asks the system to keep the size, and does not ask it to keep the z-order.
  \<open>set_window_dimensions\<close> makes one \<open>SetWindowPos\<close> call, passing the new size and the
  flags \<open>SWP_NOMOVE\<close> and \<open>SWP_NOZORDER\<close> alone: it asks the system to keep the position
  and the place in the z-order.  Neither call carries \<open>SWP_NOACTIVATE\<close>.  Neither method
  changes the instance.  What the system then does to the window is not in the class.
\<close>

theorem set_window_pos_calls:
  assumes "hwnd i = Some h" and "h \<noteq> 0" and "window_rect e h = (r0, r1, r2, r3)"
  shows "filter is_set_window_pos (snd (snd (set_window_position i x y))) =
           [SetWindowPos h HWND_TOP x y 0 0 SWP_NOSIZE] \<and>
         SWP_NOSIZE AND SWP_NOSIZE \<noteq> 0 \<and> SWP_NOSIZE AND SWP_NOMOVE = 0 \<and>
         SWP_NOSIZE AND SWP_NOZORDER = 0 \<and> SWP_NOSIZE AND SWP_NOACTIVATE = 0 \<and>
         filter is_set_window_pos (snd (snd (set_window_dimensions e i width height))) =
           [SetWindowPos h 0 (max 0 r0) (max 0 r1) width height (SWP_NOMOVE OR SWP_NOZORDER)] \<and>
         (SWP_NOMOVE OR SWP_NOZORDER) AND SWP_NOMOVE \<noteq> 0 \<and>
         (SWP_NOMOVE OR SWP_NOZORDER) AND SWP_NOZORDER \<noteq> 0 \<and>
         (SWP_NOMOVE OR SWP_NOZORDER) AND SWP_NOSIZE = 0 \<and>
         (SWP_NOMOVE OR SWP_NOZORDER) AND SWP_NOACTIVATE = 0 \<and>
         fst (snd (set_window_position i x y)) = i \<and>
         fst (snd (set_window_dimensions e i width height)) = i"
  using assms
  by (simp add: set_window_position_def set_window_dimensions_def get_window_position_def
      with_hwnd_def then_do_def dbg_def Let_def max_def
      SWP_NOSIZE_def SWP_NOMOVE_def SWP_NOZORDER_def SWP_NOACTIVATE_def)

theorem set_window_pos_calls_witness:
  "hwnd attached = Some 7 \<and> (7::int) \<noteq> 0 \<and> window_rect world 7 = (- 8, 30, 792, 630) \<and>
   snd (snd (set_window_position attached 10 20)) = [SetWindowPos 7 0 10 20 0 0 1] \<and>
   snd (snd (set_window_dimensions world attached 640 480)) =
     [GetWindowRect 7, SetWindowPos 7 0 0 30 640 480 6]"
  using set_window_pos_calls [of attached 7 world "- 8" 30 792 630 10 20 640 480]
  by (simp add: attached_def world_def HWND_TOP_def SWP_NOSIZE_def SWP_NOMOVE_def
      SWP_NOZORDER_def set_window_position_def set_window_dimensions_def
      get_window_position_def with_hwnd_def then_do_def dbg_def)

text \<open>The claim as it stands fails for \<open>set_window_position\<close>: its only call names
  \<open>HWND_TOP\<close> as the window to insert after and carries neither \<open>SWP_NOZORDER\<close> nor
  \<open>SWP_NOACTIVATE\<close>, so it asks for more than a move.  The call of
  \<open>set_window_dimensions\<close> leaves \<open>SWP_NOACTIVATE\<close> out as well.\<close>

theorem set_window_position_z_order_counterexample:
  "snd (snd (set_window_position attached 10 20)) = [SetWindowPos 7 HWND_TOP 10 20 0 0 1] \<and>
   (1::int) AND SWP_NOZORDER = 0 \<and> (1::int) AND SWP_NOACTIVATE = 0 \<and>
   snd (snd (set_window_dimensions world attached 640 480)) =
     [GetWindowRect 7, SetWindowPos 7 0 0 30 640 480 6] \<and>
   (6::int) AND SWP_NOACTIVATE = 0"
  by (simp add: attached_def world_def set_window_position_def set_window_dimensions_def
      get_window_position_def with_hwnd_def then_do_def dbg_def
      HWND_TOP_def SWP_NOSIZE_def SWP_NOMOVE_def SWP_NOZORDER_def SWP_NOACTIVATE_def)

subsection \<open>The close handler after a second \<open>open\<close>\<close>

text \<open>While the kill flag is clear, the handler finds out that the window is gone: if
  some later poll answers that the window is no longer valid, the loop ends.\<close>

lemma watch_detects:
  "\<not> kill i \<Longrightarrow> \<not> valid (k + n) \<Longrightarrow> \<exists>t. watch (Suc n) valid k i = Some t \<and> t \<noteq> []"
proof (induction n arbitrary: k)
  case 0
  then show ?case by simp
next
  case (Suc n)
  show ?case
  proof (cases "valid k")
    case False
    with Suc.prems show ?thesis by simp
  next
    case True
    from Suc.prems have "\<not> valid (Suc k + n)" by simp
    with Suc.IH [of "Suc k"] Suc.prems(1)
    obtain t where "watch (Suc n) valid (Suc k) i = Some t" by blast
    with True Suc.prems(1) show ?thesis by simp
  qed
qed

text \<open>
  Claim C4, at the input where the code falls short of it.  An instance attached to
  window 7 is closed and then opened again.  The kill flag that \<open>close\<close> set is still
  set, so the handler that this \<open>open\<close> starts leaves its loop without a single
  \<open>IsWindow\<close> call, even when the window is already gone, and its \<open>close\<close> returns at
  once: handle and subprocess stay as they were.
\<close>

theorem close_handler_after_reopen:
  "run [(world, Close), (world, Open ''app.exe'' ''App'' (Finite 2))] (fst (init (Some 7) False)) =
     reopened \<and>
   close_handler 1 (\<lambda>k. False) reopened = Some (Inr (), reopened, [])"
  by (simp add: init_def truthy_def world_def open_def close_def with_hwnd_def forget_def
      dbg_def reopened_def close_handler_def time_sleep_def)

end
